theory Spec2Isabelle
  imports Main "HOL-Library.Sublist"
begin

section \<open>transcribe.py: a command-line front end to a speech model\<close>

text \<open>
  The program parses its command line, checks that the input file exists, loads a
  Whisper model, transcribes the file, writes the text beside the input (or where
  \<^verbatim>\<open>--output\<close> says) and prints a preview. This theory embeds the source
  function by function. The standard-library functions the source calls and that
  decide a property (\<^verbatim>\<open>pathlib\<close>'s pure path operations, \<^verbatim>\<open>str.strip\<close>,
  slicing, the UTF-8 codec, \<^verbatim>\<open>argparse\<close> for the parser the source configures)
  are embedded from CPython 3.11, the newest interpreter the program accepts, in
  its POSIX flavour. What depends on the machine (the file system, the home
  directories, the search path, the speech model) is a field of the record
  \<open>world\<close>.
\<close>

subsection \<open>Strings\<close>

text \<open>
  A Python \<^verbatim>\<open>str\<close> is a sequence of Unicode code points; \<^verbatim>\<open>len\<close> and slicing
  count code points. A code point is modelled by its number, a string by the list
  of its code points. \<open>ascii\<close> embeds an ASCII literal.
\<close>

type_synonym ustring = "nat list"

definition ascii :: "string \<Rightarrow> ustring" where
  "ascii s = map of_char s"

text \<open>\<^verbatim>\<open>s.split('/')\<close>: the pieces between the separators, at least one piece.\<close>

fun split_sep :: "nat \<Rightarrow> ustring \<Rightarrow> ustring list" where
  "split_sep sep [] = [[]]"
| "split_sep sep (c # cs) =
     (if c = sep then [] # split_sep sep cs
      else (case split_sep sep cs of
              [] \<Rightarrow> [[c]]
            | x # xs \<Rightarrow> (c # x) # xs))"

text \<open>\<^verbatim>\<open>sep.join(xs)\<close>.\<close>

fun join :: "ustring \<Rightarrow> ustring list \<Rightarrow> ustring" where
  "join sep [] = []"
| "join sep [x] = x"
| "join sep (x # y # ys) = x @ sep @ join sep (y # ys)"

text \<open>
  \<^verbatim>\<open>s.rfind('.')\<close> as an option: the index of the last occurrence of \<open>c\<close>, \<open>None\<close>
  where Python returns \<open>-1\<close>.
\<close>

fun rfind :: "nat \<Rightarrow> ustring \<Rightarrow> nat option" where
  "rfind c [] = None"
| "rfind c (x # xs) =
     (case rfind c xs of
        Some i \<Rightarrow> Some (Suc i)
      | None \<Rightarrow> if x = c then Some 0 else None)"

text \<open>
  \<^verbatim>\<open>str.isspace\<close> of one code point: the code points CPython's
  \<^verbatim>\<open>_PyUnicode_IsWhitespace\<close> lists. \<^verbatim>\<open>str.strip()\<close> removes them from both ends.
\<close>

definition isspace :: "nat \<Rightarrow> bool" where
  "isspace c \<longleftrightarrow>
     (0x9 \<le> c \<and> c \<le> 0xD) \<or> (0x1C \<le> c \<and> c \<le> 0x20) \<or> c = 0x85 \<or> c = 0xA0 \<or>
     c = 0x1680 \<or> (0x2000 \<le> c \<and> c \<le> 0x200A) \<or> c = 0x2028 \<or> c = 0x2029 \<or>
     c = 0x202F \<or> c = 0x205F \<or> c = 0x3000"

definition lstrip :: "ustring \<Rightarrow> ustring" where
  "lstrip s = dropWhile isspace s"

definition rstrip :: "ustring \<Rightarrow> ustring" where
  "rstrip s = rev (dropWhile isspace (rev s))"

definition strip :: "ustring \<Rightarrow> ustring" where
  "strip s = rstrip (lstrip s)"

subsection \<open>Exceptions\<close>

text \<open>
  Every \<^verbatim>\<open>raise\<close> and \<^verbatim>\<open>sys.exit\<close> the program can meet is a value. \<^verbatim>\<open>sys.exit(msg)\<close>
  with a string raises \<open>SystemExit (Exit_msg msg)\<close>: the interpreter prints the
  message to standard error and exits with status 1. \<open>argparse\<close> exits with a
  number. \<open>LibraryError\<close> is an exception raised inside the speech library, which
  the program never catches; its argument tells such exceptions apart.
\<close>

datatype errno = ENOENT | ENOTDIR | EBADF | ELOOP | EACCES | EISDIR | EOTHER nat

datatype exit_arg = Exit_msg ustring | Exit_code nat

datatype exn =
    SystemExit exit_arg
  | ValueError
  | RuntimeError
  | TypeError
  | OSError errno
  | UnicodeEncodeError
  | LibraryError nat

subsection \<open>pathlib: pure paths (POSIX flavour)\<close>

text \<open>
  A path object holds \<^verbatim>\<open>_drv\<close>, \<^verbatim>\<open>_root\<close> and \<^verbatim>\<open>_parts\<close>; on POSIX the drive is
  always empty. As in \<^verbatim>\<open>pathlib\<close>, the first element of the parts of an anchored
  path is its root.
\<close>

record path =
  p_drv :: ustring
  p_root :: ustring
  p_parts :: "ustring list"

abbreviation slash :: nat where "slash \<equiv> 0x2F"
abbreviation dot :: nat where "dot \<equiv> 0x2E"
abbreviation tilde :: nat where "tilde \<equiv> 0x7E"

text \<open>
  \<^verbatim>\<open>_PosixFlavour.splitroot\<close>: the root (empty, one slash, or two slashes when the
  part starts with exactly two) and the rest.
\<close>

definition splitroot :: "ustring \<Rightarrow> ustring \<times> ustring" where
  "splitroot part =
     (if part \<noteq> [] \<and> hd part = slash then
        (let stripped_part = dropWhile (\<lambda>c. c = slash) part in
         if length part - length stripped_part = 2 then ([slash, slash], stripped_part)
         else ([slash], stripped_part))
      else ([], part))"

text \<open>
  The components a part contributes: the pieces between slashes that are neither
  empty nor a single dot. (The source treats a part without a slash apart; the
  split of such a part is the part itself, so one filter covers both branches.)
\<close>

definition components :: "ustring \<Rightarrow> ustring list" where
  "components rel = filter (\<lambda>x. x \<noteq> [] \<and> x \<noteq> [dot]) (split_sep slash rel)"

text \<open>
  \<^verbatim>\<open>_Flavour.parse_parts\<close> walks the parts from the last to the first, collects the
  components in reverse, and stops at the first part that has a root.
\<close>

fun parse_rev :: "ustring list \<Rightarrow> ustring list \<Rightarrow> ustring \<times> ustring list" where
  "parse_rev [] parsed = ([], parsed)"
| "parse_rev (part # it) parsed =
     (if part = [] then parse_rev it parsed
      else (case splitroot part of
              (root, rel) \<Rightarrow>
                (let parsed' = parsed @ rev (components rel) in
                 if root \<noteq> [] then (root, parsed') else parse_rev it parsed')))"

definition parse_parts :: "ustring list \<Rightarrow> path" where
  "parse_parts ps =
     (case parse_rev (rev ps) [] of
        (root, parsed) \<Rightarrow>
          \<lparr>p_drv = [], p_root = root,
           p_parts = rev (if root \<noteq> [] then parsed @ [root] else parsed)\<rparr>)"

text \<open>\<^verbatim>\<open>Path(s)\<close> for one string.\<close>

definition Path :: "ustring \<Rightarrow> path" where
  "Path s = parse_parts [s]"

text \<open>\<^verbatim>\<open>str(p)\<close>: \<^verbatim>\<open>_format_parsed_parts(...) or '.'\<close>.\<close>

definition format_parsed_parts :: "path \<Rightarrow> ustring" where
  "format_parsed_parts p =
     (if p_drv p \<noteq> [] \<or> p_root p \<noteq> [] then p_drv p @ p_root p @ join [slash] (tl (p_parts p))
      else join [slash] (p_parts p))"

definition str_path :: "path \<Rightarrow> ustring" where
  "str_path p = (if format_parsed_parts p = [] then [dot] else format_parsed_parts p)"

text \<open>\<^verbatim>\<open>PurePath.name\<close>: the final component, empty for a bare anchor or no parts.\<close>

definition name :: "path \<Rightarrow> ustring" where
  "name p =
     (if length (p_parts p) = (if p_drv p \<noteq> [] \<or> p_root p \<noteq> [] then 1 else 0) then []
      else last (p_parts p))"

text \<open>
  \<^verbatim>\<open>PurePath.stem\<close>: the name up to its last dot, when that dot is neither the
  first nor the last character (\<^verbatim>\<open>0 < i < len(name) - 1\<close>).
\<close>

definition stem :: "path \<Rightarrow> ustring" where
  "stem p =
     (case rfind dot (name p) of
        Some i \<Rightarrow> if 0 < i \<and> Suc i < length (name p) then take i (name p) else name p
      | None \<Rightarrow> name p)"

text \<open>
  \<^verbatim>\<open>PurePath.with_name\<close>: \<^verbatim>\<open>ValueError\<close> when the path has no name, or when the new
  name is empty, ends in a slash, has a root, or does not parse to exactly one
  component; otherwise the last part is replaced.
\<close>

definition with_name :: "path \<Rightarrow> ustring \<Rightarrow> exn + path" where
  "with_name p nm =
     (if name p = [] then Inl ValueError
      else (let q = parse_parts [nm] in
            if nm = [] \<or> last nm = slash \<or> p_drv q \<noteq> [] \<or> p_root q \<noteq> [] \<or>
               length (p_parts q) \<noteq> 1
            then Inl ValueError
            else Inr \<lparr>p_drv = p_drv p, p_root = p_root p, p_parts = butlast (p_parts p) @ [nm]\<rparr>))"

text \<open>\<^verbatim>\<open>PurePath.parent\<close>, used to say "in the same directory".\<close>

definition parent :: "path \<Rightarrow> path" where
  "parent p =
     (if p_parts p = [] \<or> (length (p_parts p) = 1 \<and> (p_drv p \<noteq> [] \<or> p_root p \<noteq> [])) then p
      else \<lparr>p_drv = p_drv p, p_root = p_root p, p_parts = butlast (p_parts p)\<rparr>)"

subsection \<open>The world outside the program\<close>

text \<open>
  What the program reads from its machine, and the one thing it changes there: the
  regular files.
  \<^item> \<open>version_info\<close>: the major and minor number of \<^verbatim>\<open>sys.version_info\<close>;
  \<^item> \<open>isdecimal\<close>: the decimal digits of the interpreter's Unicode tables (what
    \<^verbatim>\<open>\d\<close> matches in \<^verbatim>\<open>re\<close>);
  \<^item> \<open>sys_argv\<close>: \<^verbatim>\<open>sys.argv\<close>;
  \<^item> \<open>os_expanduser\<close>: \<^verbatim>\<open>os.path.expanduser\<close> (environment and password database);
  \<^item> \<open>os_realpath\<close>: \<^verbatim>\<open>os.path.realpath\<close> (working directory and symbolic links,
    which the program never changes);
  \<^item> \<open>files\<close>: the regular files by path string, with their bytes;
  \<^item> \<open>os_stat\<close>: \<^verbatim>\<open>os.stat\<close> of a path string that is not a key of \<open>files\<close>;
  \<^item> \<open>os_open_w\<close>: whether \<^verbatim>\<open>open(path, 'w')\<close> fails, and with which error;
  \<^item> \<open>which\<close>: \<^verbatim>\<open>shutil.which\<close>;
  \<^item> \<open>load_model\<close>, \<open>transcribe\<close>: the speech library. A model is a number. The
    transcription is given the bytes of the file at the path it is called with (if
    there is one) and every argument of the call; it returns the \<^verbatim>\<open>"text"\<close> entry
    of the result or raises.
\<close>

datatype stat_result = Stat_ok | Stat_OSError errno | Stat_ValueError

record world =
  version_info :: "nat \<times> nat"
  isdecimal :: "nat \<Rightarrow> bool"
  sys_argv :: "ustring list"
  os_expanduser :: "ustring \<Rightarrow> ustring"
  os_realpath :: "ustring \<Rightarrow> exn + ustring"
  files :: "ustring \<rightharpoonup> nat list"
  os_stat :: "ustring \<Rightarrow> stat_result"
  os_open_w :: "ustring \<Rightarrow> errno option"
  which :: "ustring \<Rightarrow> ustring option"
  load_model :: "ustring \<Rightarrow> exn + nat"
  transcribe :: "nat \<Rightarrow> nat list option \<Rightarrow> ustring \<Rightarrow> ustring \<Rightarrow> ustring option \<Rightarrow> bool \<Rightarrow> exn + ustring"

subsection \<open>pathlib: paths on the file system\<close>

definition stat :: "world \<Rightarrow> ustring \<Rightarrow> stat_result" where
  "stat w s = (case files w s of Some _ \<Rightarrow> Stat_ok | None \<Rightarrow> os_stat w s)"

text \<open>
  \<^verbatim>\<open>Path.expanduser\<close>: only a relative path whose first part starts with a tilde
  is changed; \<^verbatim>\<open>RuntimeError\<close> when the home directory is not known.
\<close>

definition expanduser :: "world \<Rightarrow> path \<Rightarrow> exn + path" where
  "expanduser w self =
     (if \<not> (p_drv self \<noteq> [] \<or> p_root self \<noteq> []) \<and> p_parts self \<noteq> [] \<and>
         take 1 (hd (p_parts self)) = [tilde]
      then (let homedir = os_expanduser w (hd (p_parts self)) in
            if take 1 homedir = [tilde] then Inl RuntimeError
            else Inr (parse_parts (homedir # tl (p_parts self))))
      else Inr self)"

text \<open>
  \<^verbatim>\<open>Path.resolve()\<close> (not strict): the real path of the string of the path, parsed
  again; a symbolic-link loop (\<^verbatim>\<open>ELOOP\<close>), from \<^verbatim>\<open>realpath\<close> or from the \<^verbatim>\<open>stat\<close> that
  follows, becomes \<^verbatim>\<open>RuntimeError\<close>; any other \<^verbatim>\<open>OSError\<close> of that \<^verbatim>\<open>stat\<close> is dropped.
\<close>

definition resolve :: "world \<Rightarrow> path \<Rightarrow> exn + path" where
  "resolve w self =
     (case os_realpath w (str_path self) of
        Inl e \<Rightarrow> if e = OSError ELOOP then Inl RuntimeError else Inl e
      | Inr s \<Rightarrow>
          (let p = parse_parts [s] in
           case stat w (str_path p) of
             Stat_ok \<Rightarrow> Inr p
           | Stat_OSError e \<Rightarrow> if e = ELOOP then Inl RuntimeError else Inr p
           | Stat_ValueError \<Rightarrow> Inl ValueError))"

text \<open>
  \<^verbatim>\<open>Path.exists()\<close>: false on the errors \<^verbatim>\<open>pathlib\<close> ignores (\<^verbatim>\<open>ENOENT\<close>, \<^verbatim>\<open>ENOTDIR\<close>,
  \<^verbatim>\<open>EBADF\<close>, \<^verbatim>\<open>ELOOP\<close>) and on \<^verbatim>\<open>ValueError\<close>; any other \<^verbatim>\<open>OSError\<close> is raised.
\<close>

definition ignore_error :: "errno \<Rightarrow> bool" where
  "ignore_error e \<longleftrightarrow> e = ENOENT \<or> e = ENOTDIR \<or> e = EBADF \<or> e = ELOOP"

definition path_exists :: "world \<Rightarrow> path \<Rightarrow> exn + bool" where
  "path_exists w p =
     (case stat w (str_path p) of
        Stat_ok \<Rightarrow> Inr True
      | Stat_OSError e \<Rightarrow> if ignore_error e then Inr False else Inl (OSError e)
      | Stat_ValueError \<Rightarrow> Inr False)"

subsection \<open>resolve\_output\_path\<close>

text \<open>
  \<^verbatim>\<open>if provided:\<close> tests truth: \<^verbatim>\<open>None\<close> and the empty string are both false.
  Otherwise \<^verbatim>\<open>Path(provided).expanduser().resolve()\<close>. The default is
  \<^verbatim>\<open>input_path.with_name(f"{input_path.stem}_{task}.txt")\<close>.
\<close>

definition resolve_output_path :: "world \<Rightarrow> path \<Rightarrow> ustring option \<Rightarrow> ustring \<Rightarrow> exn + path" where
  "resolve_output_path w input_path provided task =
     (case provided of
        Some s \<Rightarrow>
          if s \<noteq> [] then
            (case expanduser w (Path s) of
               Inl e \<Rightarrow> Inl e
             | Inr p \<Rightarrow> resolve w p)
          else with_name input_path (stem input_path @ ascii ''_'' @ task @ ascii ''.txt'')
      | None \<Rightarrow> with_name input_path (stem input_path @ ascii ''_'' @ task @ ascii ''.txt''))"

subsection \<open>argparse, for the parser of parse\_args\<close>

text \<open>
  The parser has the help option that \<^verbatim>\<open>ArgumentParser\<close> adds, one positional and
  four options. Every action but help stores one string (\<^verbatim>\<open>nargs=None\<close>); help takes
  none (\<^verbatim>\<open>nargs=0\<close>). A positional is required. The defaults are in the namespace
  below.
\<close>

datatype dest = Dest_input | Dest_model | Dest_output | Dest_language | Dest_task

datatype action_class = Store | Help

record action =
  a_option_strings :: "ustring list"
  a_dest :: "dest option"
  a_choices :: "ustring list option"
  a_required :: bool
  a_class :: action_class

definition help_action :: action where
  "help_action = \<lparr>a_option_strings = [ascii ''-h'', ascii ''--help''], a_dest = None,
     a_choices = None, a_required = False, a_class = Help\<rparr>"

definition input_action :: action where
  "input_action = \<lparr>a_option_strings = [], a_dest = Some Dest_input,
     a_choices = None, a_required = True, a_class = Store\<rparr>"

definition model_action :: action where
  "model_action = \<lparr>a_option_strings = [ascii ''-m'', ascii ''--model''], a_dest = Some Dest_model,
     a_choices = None, a_required = False, a_class = Store\<rparr>"

definition output_action :: action where
  "output_action = \<lparr>a_option_strings = [ascii ''-o'', ascii ''--output''], a_dest = Some Dest_output,
     a_choices = None, a_required = False, a_class = Store\<rparr>"

definition language_action :: action where
  "language_action = \<lparr>a_option_strings = [ascii ''--language''], a_dest = Some Dest_language,
     a_choices = None, a_required = False, a_class = Store\<rparr>"

definition task_choices :: "ustring list" where
  "task_choices = [ascii ''transcribe'', ascii ''translate'']"

definition task_action :: action where
  "task_action = \<lparr>a_option_strings = [ascii ''--task''], a_dest = Some Dest_task,
     a_choices = Some task_choices,
     a_required = False, a_class = Store\<rparr>"

definition actions :: "action list" where
  "actions = [help_action, input_action, model_action, output_action, language_action, task_action]"

text \<open>\<^verbatim>\<open>_option_string_actions\<close>, in the order the option strings were registered.\<close>

definition option_string_actions :: "(ustring \<times> action) list" where
  "option_string_actions = concat (map (\<lambda>a. map (\<lambda>s. (s, a)) (a_option_strings a)) actions)"

text \<open>
  \<^verbatim>\<open>_get_action_name\<close>: the option strings joined by a slash, or the destination of
  a positional.
\<close>

definition dest_name :: "dest \<Rightarrow> ustring" where
  "dest_name d =
     (case d of Dest_input \<Rightarrow> ascii ''input'' | Dest_model \<Rightarrow> ascii ''model''
      | Dest_output \<Rightarrow> ascii ''output'' | Dest_language \<Rightarrow> ascii ''language''
      | Dest_task \<Rightarrow> ascii ''task'')"

definition action_name :: "action \<Rightarrow> ustring" where
  "action_name a =
     (if a_option_strings a \<noteq> [] then join [slash] (a_option_strings a)
      else (case a_dest a of Some d \<Rightarrow> dest_name d | None \<Rightarrow> []))"

text \<open>
  The namespace, with the types its attributes can hold: \<^verbatim>\<open>input\<close>, \<^verbatim>\<open>output\<close> and
  \<^verbatim>\<open>language\<close> are \<^verbatim>\<open>None\<close> (here \<open>None\<close>) until a string is stored; \<^verbatim>\<open>model\<close> and
  \<^verbatim>\<open>task\<close> start from the string defaults of the source. The defaults are not checked
  against the choices.
\<close>

record namespace =
  ns_input :: "ustring option"
  ns_model :: ustring
  ns_output :: "ustring option"
  ns_language :: "ustring option"
  ns_task :: ustring

definition default_namespace :: namespace where
  "default_namespace = \<lparr>ns_input = None, ns_model = ascii ''small'', ns_output = None,
     ns_language = None, ns_task = ascii ''transcribe''\<rparr>"

definition setattr :: "namespace \<Rightarrow> dest \<Rightarrow> ustring \<Rightarrow> namespace" where
  "setattr ns d v =
     (case d of
        Dest_input \<Rightarrow> ns\<lparr>ns_input := Some v\<rparr>
      | Dest_model \<Rightarrow> ns\<lparr>ns_model := v\<rparr>
      | Dest_output \<Rightarrow> ns\<lparr>ns_output := Some v\<rparr>
      | Dest_language \<Rightarrow> ns\<lparr>ns_language := Some v\<rparr>
      | Dest_task \<Rightarrow> ns\<lparr>ns_task := v\<rparr>)"

text \<open>
  How a parse ends without a namespace: a usage error (usage line and message on
  standard error, exit status 2) or the help (on standard output, exit status 0).
  The messages are kept structured. \<open>Invalid_choice v cs\<close> stands for
  \<^verbatim>\<open>invalid choice: 'v' (choose from 'c1', 'c2')\<close>, prefixed with the argument's name.
\<close>

datatype arg_msg =
    Expected_one_argument
  | Ignored_explicit_argument ustring
  | Invalid_choice ustring "ustring list"

datatype parse_error =
    Ambiguous_option ustring "ustring list"
  | Argument_error ustring arg_msg
  | Required_arguments "ustring list"
  | Unrecognized_arguments "ustring list"

datatype parse_exit = Usage_error parse_error | Help_exit

subsubsection \<open>Which argument strings are options\<close>

abbreviation dash :: nat where "dash \<equiv> 0x2D"
abbreviation equals :: nat where "equals \<equiv> 0x3D"

text \<open>\<^verbatim>\<open>s.partition('=')\<close>: the text before the first \<^verbatim>\<open>=\<close>, the separator found (or
  empty) and the text after it.\<close>

definition partition_eq :: "ustring \<Rightarrow> ustring \<times> ustring \<times> ustring" where
  "partition_eq s =
     (case dropWhile (\<lambda>c. c \<noteq> equals) s of
        [] \<Rightarrow> (s, [], [])
      | _ # after \<Rightarrow> (takeWhile (\<lambda>c. c \<noteq> equals) s, [equals], after))"

text \<open>
  An option tuple: the action (none for an option the parser does not know), the
  option string, the separator and the explicit argument.
\<close>

type_synonym option_tuple = "action option \<times> ustring \<times> ustring option \<times> ustring option"

definition startswith :: "ustring \<Rightarrow> ustring \<Rightarrow> bool" where
  "startswith s pre = (take (length pre) s = pre)"

text \<open>
  \<^verbatim>\<open>_get_option_tuples\<close>, called on strings of at least two characters that start
  with a dash. A long option may be abbreviated and is split at \<^verbatim>\<open>=\<close>; a short
  option may carry its argument.
\<close>

definition get_option_tuples :: "ustring \<Rightarrow> option_tuple list" where
  "get_option_tuples option_string =
     (if option_string ! 1 = dash then
        (case partition_eq option_string of
           (option_prefix, sep, explicit_arg) \<Rightarrow>
             map (\<lambda>(s, a). (Some a, s, if sep = [] then None else Some sep,
                            if sep = [] then None else Some explicit_arg))
               (filter (\<lambda>(s, a). startswith s option_prefix) option_string_actions))
      else
        concat (map (\<lambda>(s, a).
            if s = take 2 option_string then [(Some a, s, Some [], Some (drop 2 option_string))]
            else if startswith s option_string then [(Some a, s, None, None)]
            else [])
          option_string_actions))"

text \<open>
  \<^verbatim>\<open>_negative_number_matcher\<close>, \<^verbatim>\<open>'^-\d+$|^-\d*\.\d+$'\<close>: a \<^verbatim>\<open>$\<close> also matches before
  a final newline.
\<close>

definition chomp :: "ustring \<Rightarrow> ustring" where
  "chomp s = (if s \<noteq> [] \<and> last s = 0xA then butlast s else s)"

definition digits :: "world \<Rightarrow> ustring \<Rightarrow> bool" where
  "digits w s \<longleftrightarrow> s \<noteq> [] \<and> list_all (isdecimal w) s"

definition negative_number_exact :: "world \<Rightarrow> ustring \<Rightarrow> bool" where
  "negative_number_exact w s \<longleftrightarrow>
     s \<noteq> [] \<and> hd s = dash \<and>
     (digits w (tl s) \<or>
      list_ex (\<lambda>i. tl s ! i = dot \<and> list_all (isdecimal w) (take i (tl s)) \<and>
                   digits w (drop (Suc i) (tl s)))
        [0 ..< length (tl s)])"

definition negative_number :: "world \<Rightarrow> ustring \<Rightarrow> bool" where
  "negative_number w s \<longleftrightarrow> negative_number_exact w s \<or> negative_number_exact w (chomp s)"

text \<open>
  \<^verbatim>\<open>_parse_optional\<close>: \<open>None\<close> for a positional, an option tuple for an option, or
  the error of an ambiguous abbreviation.
\<close>

definition parse_optional :: "world \<Rightarrow> ustring \<Rightarrow> parse_error + option_tuple option" where
  "parse_optional w arg_string =
     (if arg_string = [] then Inr None
      else if hd arg_string \<noteq> dash then Inr None
      else (case map_of option_string_actions arg_string of
          Some a \<Rightarrow> Inr (Some (Some a, arg_string, None, None))
        | None \<Rightarrow>
          if length arg_string = 1 then Inr None
          else (case partition_eq arg_string of
            (option_string, sep, explicit_arg) \<Rightarrow>
              (case (if sep \<noteq> [] then map_of option_string_actions option_string else None) of
                 Some a \<Rightarrow> Inr (Some (Some a, option_string, Some sep, Some explicit_arg))
               | None \<Rightarrow>
                   (let option_tuples = get_option_tuples arg_string in
                    if length option_tuples > 1 then
                      Inl (Ambiguous_option arg_string (map (\<lambda>t. fst (snd t)) option_tuples))
                    else if length option_tuples = 1 then Inr (Some (hd option_tuples))
                    else if negative_number w arg_string then Inr None
                    else if 0x20 \<in> set arg_string then Inr None
                    else Inr (Some (None, arg_string, None, None)))))))"

text \<open>
  The first pass of \<^verbatim>\<open>_parse_known_args\<close> gives every argument string a letter:
  \<^verbatim>\<open>O\<close> for an option, \<^verbatim>\<open>A\<close> for an argument, \<^verbatim>\<open>-\<close> for the first \<^verbatim>\<open>--\<close>; every string
  after that \<^verbatim>\<open>--\<close> is an \<^verbatim>\<open>A\<close>. The pattern is \<^verbatim>\<open>(O|A)*\<close> or \<^verbatim>\<open>(O|A)*-A*\<close>, and it is
  kept in that shape: the items before the first \<^verbatim>\<open>--\<close>, and the strings after it
  when there is one.
\<close>

datatype item = Arg ustring | Opt option_tuple ustring

fun classify :: "world \<Rightarrow> ustring list \<Rightarrow> parse_error + (item list \<times> ustring list option)" where
  "classify w [] = Inr ([], None)"
| "classify w (arg_string # rest) =
     (if arg_string = [dash, dash] then Inr ([], Some rest)
      else (case parse_optional w arg_string of
          Inl e \<Rightarrow> Inl e
        | Inr t \<Rightarrow>
            (case classify w rest of
               Inl e \<Rightarrow> Inl e
             | Inr (items, post) \<Rightarrow>
                 Inr ((case t of None \<Rightarrow> Arg arg_string | Some tup \<Rightarrow> Opt tup arg_string) # items, post))))"

subsubsection \<open>Consuming the argument strings\<close>

text \<open>
  What an option string makes the parser do: store a value through an action, or
  show the help. \<^verbatim>\<open>take_action\<close> checks the value against the choices of the
  action (\<^verbatim>\<open>_check_value\<close>) and stores it; the help action prints the help and exits.
\<close>

datatype step = Store_value action ustring | Show_help

fun take_step :: "step \<Rightarrow> namespace \<Rightarrow> parse_exit + namespace" where
  "take_step Show_help ns = Inl Help_exit"
| "take_step (Store_value a v) ns =
     (if (case a_choices a of None \<Rightarrow> False | Some cs \<Rightarrow> v \<notin> set cs) then
        Inl (Usage_error (Argument_error (action_name a)
               (Invalid_choice v (case a_choices a of None \<Rightarrow> [] | Some cs \<Rightarrow> cs))))
      else Inr (case a_dest a of None \<Rightarrow> ns | Some d \<Rightarrow> setattr ns d v))"

text \<open>
  Steps are taken in order until one ends the parse. Beside the result, the parser
  model keeps the list of the steps it took, the last one included when that one
  ended the parse: it says which values the parser got to.
\<close>

type_synonym 'a parsed = "(parse_exit + 'a) \<times> step list"

fun take_steps :: "step list \<Rightarrow> namespace \<Rightarrow> step list \<Rightarrow> namespace parsed" where
  "take_steps [] ns taken = (Inr ns, taken)"
| "take_steps (s # ss) ns taken =
     (case take_step s ns of
        Inl e \<Rightarrow> (Inl e, taken @ [s])
      | Inr ns' \<Rightarrow> take_steps ss ns' (taken @ [s]))"

text \<open>
  \<^verbatim>\<open>consume_optional\<close>, the loop over one argument string that starts with an
  option. Its arguments: the option tuple, the steps collected so far, the string
  that follows when its letter is \<^verbatim>\<open>A\<close>, and the argument string itself. It returns
  the steps to take, whether the following string was used, and the strings to add
  to the unrecognised ones. \<^verbatim>\<open>_match_argument\<close> counts one argument for a store
  action and none for the help action; a short help option may be followed, in the
  same string, by further short options (\<^verbatim>\<open>-hm\<close>). Nothing is taken before the
  whole string is consumed: an error in it comes before the help.
\<close>

function consume_optional ::
  "action option \<Rightarrow> ustring \<Rightarrow> ustring option \<Rightarrow> ustring option \<Rightarrow> step list \<Rightarrow>
   ustring option \<Rightarrow> ustring \<Rightarrow> parse_error + (step list \<times> bool \<times> ustring list)" where
  "consume_optional None option_string sep explicit_arg steps next_arg arg_string =
     Inr ([], False, [arg_string])"
| "consume_optional (Some a) option_string sep (Some explicit_arg) steps next_arg arg_string =
     (case a_class a of
        Help \<Rightarrow>
          if option_string ! 1 \<noteq> dash \<and> explicit_arg \<noteq> [] then
            (if (sep \<noteq> None \<and> sep \<noteq> Some []) \<or> hd explicit_arg = dash then
               Inl (Argument_error (action_name a) (Ignored_explicit_argument explicit_arg))
             else
               (case map_of option_string_actions [dash, hd explicit_arg] of
                  Some a' \<Rightarrow>
                    (if tl explicit_arg = [] then
                       consume_optional (Some a') [dash, hd explicit_arg] None None
                         (steps @ [Show_help]) next_arg arg_string
                     else if hd (tl explicit_arg) = equals then
                       consume_optional (Some a') [dash, hd explicit_arg] (Some [equals])
                         (Some (tl (tl explicit_arg))) (steps @ [Show_help]) next_arg arg_string
                     else
                       consume_optional (Some a') [dash, hd explicit_arg] (Some [])
                         (Some (tl explicit_arg)) (steps @ [Show_help]) next_arg arg_string)
                | None \<Rightarrow> Inr (steps @ [Show_help], False, [dash # explicit_arg])))
          else Inl (Argument_error (action_name a) (Ignored_explicit_argument explicit_arg))
      | Store \<Rightarrow> Inr (steps @ [Store_value a explicit_arg], False, []))"
| "consume_optional (Some a) option_string sep None steps next_arg arg_string =
     (case a_class a of
        Help \<Rightarrow> Inr (steps @ [Show_help], False, [])
      | Store \<Rightarrow>
          (case next_arg of
             Some v \<Rightarrow> Inr (steps @ [Store_value a v], True, [])
           | None \<Rightarrow> Inl (Argument_error (action_name a) Expected_one_argument)))"
  by pat_completeness auto
termination
  by (relation "measure (\<lambda>(a, os, sep, ea, r). case ea of None \<Rightarrow> 0 | Some e \<Rightarrow> Suc (length e))")
    (auto simp: neq_Nil_conv)

text \<open>
  The loop of \<^verbatim>\<open>_parse_known_args\<close> runs while an option lies ahead. An argument
  before the next option goes to the positional \<open>input\<close> when that is still
  pending, and to the unrecognised strings otherwise. The loop returns the strings
  after the last option.
\<close>

definition is_option :: "item \<Rightarrow> bool" where
  "is_option i = (case i of Arg _ \<Rightarrow> False | Opt _ _ \<Rightarrow> True)"

definition item_string :: "item \<Rightarrow> ustring" where
  "item_string i = (case i of Arg s \<Rightarrow> s | Opt _ s \<Rightarrow> s)"

definition following_arg :: "item list \<Rightarrow> ustring option" where
  "following_arg rest = (case rest of Arg v # _ \<Rightarrow> Some v | _ \<Rightarrow> None)"

function parse_loop ::
  "bool \<Rightarrow> namespace \<Rightarrow> ustring list \<Rightarrow> step list \<Rightarrow> item list \<Rightarrow>
   (bool \<times> namespace \<times> ustring list \<times> ustring list) parsed" where
  "parse_loop pending ns extras taken [] = (Inr (pending, ns, extras, []), taken)"
| "parse_loop pending ns extras taken (Arg s # rest) =
     (if list_ex is_option rest then
        (if pending then
           (case take_steps [Store_value input_action s] ns taken of
              (Inl e, taken') \<Rightarrow> (Inl e, taken')
            | (Inr ns', taken') \<Rightarrow> parse_loop False ns' extras taken' rest)
         else parse_loop False ns (extras @ [s]) taken rest)
      else (Inr (pending, ns, extras, s # map item_string rest), taken))"
| "parse_loop pending ns extras taken
     (Opt (action, option_string, sep, explicit_arg) arg_string # rest) =
     (case consume_optional action option_string sep explicit_arg [] (following_arg rest) arg_string of
        Inl e \<Rightarrow> (Inl (Usage_error e), taken)
      | Inr (steps, used_next, unknown) \<Rightarrow>
          (case take_steps steps ns taken of
             (Inl e, taken') \<Rightarrow> (Inl e, taken')
           | (Inr ns', taken') \<Rightarrow>
               parse_loop pending ns' (extras @ unknown) taken'
                 (if used_next then tl rest else rest)))"
  by pat_completeness auto
termination
  by (relation "measure (\<lambda>(p, ns, ex, taken, items). length items)") auto

text \<open>
  After the last option the positional is matched once more, against \<^verbatim>\<open>(-*A-*)\<close>:
  the next argument, with the \<^verbatim>\<open>--\<close> before or after it. What is left is
  unrecognised.
\<close>

definition final_positionals ::
  "bool \<Rightarrow> namespace \<Rightarrow> ustring list \<Rightarrow> step list \<Rightarrow> ustring list \<Rightarrow> ustring list option \<Rightarrow>
   (bool \<times> namespace \<times> ustring list) parsed" where
  "final_positionals pending ns extras taken left post =
     (let after = (case post of None \<Rightarrow> [] | Some ps \<Rightarrow> [dash, dash] # ps) in
      if pending then
        (case left of
           s # others \<Rightarrow>
             (case take_steps [Store_value input_action s] ns taken of
                (Inl e, taken') \<Rightarrow> (Inl e, taken')
              | (Inr ns', taken') \<Rightarrow>
                  (Inr (False, ns', extras @ (if others = [] then tl after else others @ after)),
                   taken'))
         | [] \<Rightarrow>
             (case post of
                Some (s # others) \<Rightarrow>
                  (case take_steps [Store_value input_action s] ns taken of
                     (Inl e, taken') \<Rightarrow> (Inl e, taken')
                   | (Inr ns', taken') \<Rightarrow> (Inr (False, ns', extras @ others), taken'))
              | _ \<Rightarrow> (Inr (True, ns, extras @ after), taken)))
      else (Inr (False, ns, extras @ left @ after), taken))"

text \<open>
  \<^verbatim>\<open>parse_known_args\<close> and \<^verbatim>\<open>parse_args\<close>: the required positional must have been
  seen, and nothing may be left unrecognised. \<^verbatim>\<open>parse_args(None)\<close> reads
  \<^verbatim>\<open>sys.argv[1:]\<close>.
\<close>

definition parse_known_args :: "world \<Rightarrow> ustring list \<Rightarrow> (namespace \<times> ustring list) parsed" where
  "parse_known_args w args =
     (case classify w args of
        Inl e \<Rightarrow> (Inl (Usage_error e), [])
      | Inr (items, post) \<Rightarrow>
          (case parse_loop True default_namespace [] [] items of
             (Inl e, taken) \<Rightarrow> (Inl e, taken)
           | (Inr (pending, ns, extras, left), taken) \<Rightarrow>
               (case final_positionals pending ns extras taken left post of
                  (Inl e, taken') \<Rightarrow> (Inl e, taken')
                | (Inr (pending', ns', extras'), taken') \<Rightarrow>
                    if pending' then
                      (Inl (Usage_error (Required_arguments [action_name input_action])), taken')
                    else (Inr (ns', extras'), taken'))))"

definition parse_args_taking :: "world \<Rightarrow> ustring list option \<Rightarrow> namespace parsed" where
  "parse_args_taking w argv =
     (case parse_known_args w (case argv of None \<Rightarrow> tl (sys_argv w) | Some args \<Rightarrow> args) of
        (Inl e, taken) \<Rightarrow> (Inl e, taken)
      | (Inr (ns, extras), taken) \<Rightarrow>
          if extras \<noteq> [] then (Inl (Usage_error (Unrecognized_arguments extras)), taken)
          else (Inr ns, taken))"

text \<open>\<^verbatim>\<open>parse_args\<close>: the namespace or the way the parser left; and the steps it took.\<close>

definition parse_args :: "world \<Rightarrow> ustring list option \<Rightarrow> parse_exit + namespace" where
  "parse_args w argv = fst (parse_args_taking w argv)"

definition steps_taken :: "world \<Rightarrow> ustring list option \<Rightarrow> step list" where
  "steps_taken w argv = snd (parse_args_taking w argv)"

subsection \<open>UTF-8\<close>

text \<open>
  The \<^verbatim>\<open>utf-8\<close> codec on one code point: one to four bytes; a surrogate
  (\<^verbatim>\<open>U+D800\<close> to \<^verbatim>\<open>U+DFFF\<close>) is refused with \<^verbatim>\<open>UnicodeEncodeError\<close>. A Python string
  holds nothing above \<^verbatim>\<open>U+10FFFF\<close>.
\<close>

definition utf8_char :: "nat \<Rightarrow> nat list option" where
  "utf8_char c =
     (if c < 0x80 then Some [c]
      else if c < 0x800 then Some [0xC0 + c div 0x40, 0x80 + c mod 0x40]
      else if c < 0x10000 then
        (if 0xD800 \<le> c \<and> c \<le> 0xDFFF then None
         else Some [0xE0 + c div 0x1000, 0x80 + (c div 0x40) mod 0x40, 0x80 + c mod 0x40])
      else if c < 0x110000 then
        Some [0xF0 + c div 0x40000, 0x80 + (c div 0x1000) mod 0x40,
              0x80 + (c div 0x40) mod 0x40, 0x80 + c mod 0x40]
      else None)"

fun utf8_encode :: "ustring \<Rightarrow> nat list option" where
  "utf8_encode [] = Some []"
| "utf8_encode (c # cs) =
     (case utf8_char c of
        None \<Rightarrow> None
      | Some bs \<Rightarrow> (case utf8_encode cs of None \<Rightarrow> None | Some rest \<Rightarrow> Some (bs @ rest)))"

subsection \<open>Running the program\<close>

text \<open>
  A run is followed through the calls \<^verbatim>\<open>main\<close> makes, in their order: each call
  that reads the interpreter, the parser, the file system or the speech library,
  and each line printed, is an event of the trace. \<^verbatim>\<open>print\<close> is assumed to succeed.
\<close>

datatype encoding = UTF8

datatype event =
    Check_version
  | Parse_args "ustring list option"
  | Print_usage_stderr
  | Print_error_stderr parse_error
  | Print_help_stdout
  | Resolve_input "ustring option"
  | Path_exists path
  | Print_stdout ustring
  | Print_stderr ustring
  | Load_model ustring
  | Transcribe nat ustring ustring "ustring option" bool
  | Resolve_output_path path "ustring option" ustring
  | Write_text path ustring encoding
  | Which ustring

text \<open>
  A statement of the program takes the world and the trace so far and returns a
  value or an exception, with the world and the trace after it. \<open>bind\<close> is the
  semicolon: an exception ends the run.
\<close>

type_synonym 'a prog = "world \<times> event list \<Rightarrow> (exn + 'a) \<times> world \<times> event list"

definition ok :: "'a \<Rightarrow> 'a prog" where
  "ok x = (\<lambda>s. (Inr x, s))"

definition raise :: "exn \<Rightarrow> 'a prog" where
  "raise e = (\<lambda>s. (Inl e, s))"

definition lift :: "exn + 'a \<Rightarrow> 'a prog" where
  "lift r = (\<lambda>s. (r, s))"

definition bind :: "'a prog \<Rightarrow> ('a \<Rightarrow> 'b prog) \<Rightarrow> 'b prog" where
  "bind m f = (\<lambda>s. case m s of (Inl e, s') \<Rightarrow> (Inl e, s') | (Inr x, s') \<Rightarrow> f x s')"

definition emit :: "event \<Rightarrow> unit prog" where
  "emit ev = (\<lambda>(w, tr). (Inr (), (w, tr @ [ev])))"

definition get_world :: "world prog" where
  "get_world = (\<lambda>(w, tr). (Inr w, (w, tr)))"

text \<open>
  \<^verbatim>\<open>sys.version_info >= (3, 12)\<close> compares tuples: by the major number, then the
  minor one.
\<close>

definition version_ge :: "nat \<times> nat \<Rightarrow> nat \<times> nat \<Rightarrow> bool" where
  "version_ge v u \<longleftrightarrow> fst v > fst u \<or> (fst v = fst u \<and> snd v \<ge> snd u)"

text \<open>How the parser leaves the program: what it prints, and \<^verbatim>\<open>SystemExit\<close>.\<close>

definition parser_exit :: "parse_exit \<Rightarrow> 'a prog" where
  "parser_exit e =
     (case e of
        Usage_error err \<Rightarrow>
          bind (emit Print_usage_stderr) (\<lambda>_.
          bind (emit (Print_error_stderr err)) (\<lambda>_.
          raise (SystemExit (Exit_code 2))))
      | Help_exit \<Rightarrow>
          bind (emit Print_help_stdout) (\<lambda>_.
          raise (SystemExit (Exit_code 0))))"

text \<open>
  \<^verbatim>\<open>Path.write_text(text, encoding="utf-8")\<close>: the file is opened for writing, which
  creates or empties it, and the encoded text is written. When the text cannot be
  encoded the file stays empty.
\<close>

definition write_text :: "path \<Rightarrow> ustring \<Rightarrow> unit prog" where
  "write_text p data =
     (\<lambda>(w, tr).
        case os_open_w w (str_path p) of
          Some e \<Rightarrow> (Inl (OSError e), (w, tr))
        | None \<Rightarrow>
            (case utf8_encode data of
               None \<Rightarrow> (Inl UnicodeEncodeError, (w\<lparr>files := (files w)(str_path p \<mapsto> [])\<rparr>, tr))
             | Some bytes \<Rightarrow> (Inr (), (w\<lparr>files := (files w)(str_path p \<mapsto> bytes)\<rparr>, tr))))"

text \<open>The string literals of \<^verbatim>\<open>main\<close>.\<close>

definition version_message :: ustring where
  "version_message =
     [0x274C] @ ascii '' PyTorch/Whisper wheels are not yet available for Python 3.12. Please run this tool under Python 3.8'' @
     [0x2014] @ ascii ''3.11 (e.g. 3.11.8). Consider using pyenv:'' @ [0xA] @
     ascii ''   pyenv install 3.11.8 && pyenv local 3.11.8''"

definition not_found_message :: "path \<Rightarrow> ustring" where
  "not_found_message input_path = [0x274C] @ ascii '' File not found: '' @ str_path input_path"

definition loading_message :: "ustring \<Rightarrow> ustring" where
  "loading_message model_name =
     [0x1F449] @ ascii '' Loading Whisper model '' @ [0x27] @ model_name @
     [0x27, 0x2026] @ ascii '' This may take a while on first run.''"

definition transcribing_message :: ustring where
  "transcribing_message = [0x1F3A7] @ ascii '' Transcribing'' @ [0x2026]"

definition done_message :: "path \<Rightarrow> ustring" where
  "done_message output_path = [0x2705] @ ascii '' Done! Transcript saved to: '' @ str_path output_path"

definition preview_header :: ustring where
  "preview_header = [0xA] @ ascii ''--- Transcript preview (first 1,000 chars) ---''"

definition ffmpeg_warning :: ustring where
  "ffmpeg_warning =
     [0x26A0, 0xFE0F] @
     ascii ''  FFmpeg executable not found in PATH. Whisper might fail to load the audio.'' @
     [0xA] @ ascii ''    '' @ [0x1F449] @ ascii '' Install it, e.g. '' @ [0x27] @
     ascii ''brew install ffmpeg'' @ [0x27] @
     ascii '' (macOS) or from https://ffmpeg.org/download.html''"

text \<open>\<^verbatim>\<open>text[:1000] + ("\<dots>" if len(text) > 1000 else "")\<close>, with the ellipsis \<^verbatim>\<open>U+2026\<close>.\<close>

definition preview :: "ustring \<Rightarrow> ustring" where
  "preview text = take 1000 text @ (if length text > 1000 then [0x2026] else [])"

text \<open>
  \<^verbatim>\<open>main\<close>, statement by statement. \<^verbatim>\<open>Path(args.input)\<close> raises \<^verbatim>\<open>TypeError\<close> on \<^verbatim>\<open>None\<close>.
  The transcription reads the file at the input path as the world has it when the
  call is made.
\<close>

definition main :: "ustring list option \<Rightarrow> unit prog" where
  "main argv =
     bind (emit Check_version) (\<lambda>_.
     bind get_world (\<lambda>w.
     if version_ge (version_info w) (3, 12) then raise (SystemExit (Exit_msg version_message))
     else
     bind (emit (Parse_args argv)) (\<lambda>_.
     bind (case parse_args w argv of Inl e \<Rightarrow> parser_exit e | Inr ns \<Rightarrow> ok ns) (\<lambda>args.
     bind (emit (Resolve_input (ns_input args))) (\<lambda>_.
     bind (lift (case ns_input args of
                   None \<Rightarrow> Inl TypeError
                 | Some s \<Rightarrow> (case expanduser w (Path s) of
                                Inl e \<Rightarrow> Inl e
                              | Inr p \<Rightarrow> resolve w p))) (\<lambda>input_path.
     bind (emit (Path_exists input_path)) (\<lambda>_.
     bind (lift (path_exists w input_path)) (\<lambda>found.
     if \<not> found then raise (SystemExit (Exit_msg (not_found_message input_path)))
     else
     bind (emit (Print_stdout (loading_message (ns_model args)))) (\<lambda>_.
     bind (emit (Load_model (ns_model args))) (\<lambda>_.
     bind (lift (load_model w (ns_model args))) (\<lambda>model.
     bind (emit (Print_stdout transcribing_message)) (\<lambda>_.
     bind (emit (Transcribe model (str_path input_path) (ns_task args) (ns_language args) False)) (\<lambda>_.
     bind (lift (transcribe w model (files w (str_path input_path)) (str_path input_path)
                   (ns_task args) (ns_language args) False)) (\<lambda>result_text.
     bind (ok (strip result_text)) (\<lambda>text.
     bind (emit (Resolve_output_path input_path (ns_output args) (ns_task args))) (\<lambda>_.
     bind (lift (resolve_output_path w input_path (ns_output args) (ns_task args))) (\<lambda>output_path.
     bind (emit (Write_text output_path text UTF8)) (\<lambda>_.
     bind (write_text output_path text) (\<lambda>_.
     bind (emit (Print_stdout (done_message output_path))) (\<lambda>_.
     bind (emit (Print_stdout preview_header)) (\<lambda>_.
     bind (emit (Print_stdout (preview text))) (\<lambda>_.
     bind (emit (Which (ascii ''ffmpeg''))) (\<lambda>_.
     if which w (ascii ''ffmpeg'') = None then emit (Print_stderr ffmpeg_warning)
     else ok ())))))))))))))))))))))))"


definition run :: "world \<Rightarrow> ustring list option \<Rightarrow> (exn + unit) \<times> world \<times> event list" where
  "run w argv = main argv (w, [])"

definition result_of :: "(exn + unit) \<times> world \<times> event list \<Rightarrow> exn + unit" where
  "result_of r = fst r"


definition trace_of :: "(exn + unit) \<times> world \<times> event list \<Rightarrow> event list" where
  "trace_of r = snd (snd r)"

subsection \<open>Notions the properties are stated with\<close>

text \<open>
  The invariant of the path objects \<^verbatim>\<open>pathlib\<close> builds: no drive; a root that is
  empty, one slash or two; the root, when there is one, first among the parts; and
  every other part a component: not empty, not a single dot, without a slash.
\<close>

definition component :: "ustring \<Rightarrow> bool" where
  "component x \<longleftrightarrow> x \<noteq> [] \<and> x \<noteq> [dot] \<and> slash \<notin> set x"

definition valid_path :: "path \<Rightarrow> bool" where
  "valid_path p \<longleftrightarrow>
     p_drv p = [] \<and>
     ((p_root p = [] \<and> list_all component (p_parts p)) \<or>
      ((p_root p = [slash] \<or> p_root p = [slash, slash]) \<and> p_parts p \<noteq> [] \<and>
       hd (p_parts p) = p_root p \<and> list_all component (tl (p_parts p))))"

text \<open>\<^verbatim>\<open>PurePosixPath.is_absolute\<close>: the path has a root.\<close>

definition is_absolute :: "path \<Rightarrow> bool" where
  "is_absolute p \<longleftrightarrow> p_root p \<noteq> []"

text \<open>
  What \<^verbatim>\<open>os.path.realpath\<close> promises of its result, which ends in \<^verbatim>\<open>abspath\<close>: it
  starts with a slash.
\<close>

definition realpath_absolute :: "world \<Rightarrow> bool" where
  "realpath_absolute w \<longleftrightarrow> (\<forall>s r. os_realpath w s = Inr r \<longrightarrow> take 1 r = [slash])"

text \<open>
  A run in which nothing fails: the interpreter is accepted, the arguments parse,
  the input path resolves and exists, the model loads, the transcription returns,
  the output path resolves, the file opens and the text encodes. \<open>success_trace\<close>
  lists what such a run does up to the \<^verbatim>\<open>ffmpeg\<close> check.
\<close>

definition succeeds ::
  "world \<Rightarrow> ustring list option \<Rightarrow> namespace \<Rightarrow> path \<Rightarrow> nat \<Rightarrow> ustring \<Rightarrow> path \<Rightarrow>
   nat list \<Rightarrow> bool" where
  "succeeds w argv args input_path model result_text output_path bytes \<longleftrightarrow>
     \<not> version_ge (version_info w) (3, 12) \<and>
     parse_args w argv = Inr args \<and>
     (case ns_input args of
        None \<Rightarrow> False
      | Some s \<Rightarrow> (case expanduser w (Path s) of
                     Inl e \<Rightarrow> False
                   | Inr p \<Rightarrow> resolve w p = Inr input_path)) \<and>
     path_exists w input_path = Inr True \<and>
     load_model w (ns_model args) = Inr model \<and>
     transcribe w model (files w (str_path input_path)) (str_path input_path)
       (ns_task args) (ns_language args) False = Inr result_text \<and>
     resolve_output_path w input_path (ns_output args) (ns_task args) = Inr output_path \<and>
     os_open_w w (str_path output_path) = None \<and>
     utf8_encode (strip result_text) = Some bytes"

definition success_trace ::
  "ustring list option \<Rightarrow> namespace \<Rightarrow> path \<Rightarrow> nat \<Rightarrow> ustring \<Rightarrow> path \<Rightarrow> event list" where
  "success_trace argv args input_path model text output_path =
     [Check_version, Parse_args argv, Resolve_input (ns_input args), Path_exists input_path,
      Print_stdout (loading_message (ns_model args)), Load_model (ns_model args),
      Print_stdout transcribing_message,
      Transcribe model (str_path input_path) (ns_task args) (ns_language args) False,
      Resolve_output_path input_path (ns_output args) (ns_task args),
      Write_text output_path text UTF8,
      Print_stdout (done_message output_path), Print_stdout preview_header,
      Print_stdout (preview text), Which (ascii ''ffmpeg'')]"







definition is_file_system_event :: "event \<Rightarrow> bool" where
  "is_file_system_event ev =
     (case ev of
        Resolve_input _ \<Rightarrow> True | Path_exists _ \<Rightarrow> True | Resolve_output_path _ _ _ \<Rightarrow> True
      | Write_text _ _ _ \<Rightarrow> True | Which _ \<Rightarrow> True | _ \<Rightarrow> False)"




definition stdout_lines :: "event list \<Rightarrow> ustring list" where
  "stdout_lines tr = List.map_filter (\<lambda>ev. case ev of Print_stdout m \<Rightarrow> Some m | _ \<Rightarrow> None) tr"

definition stderr_lines :: "event list \<Rightarrow> ustring list" where
  "stderr_lines tr = List.map_filter (\<lambda>ev. case ev of Print_stderr m \<Rightarrow> Some m | _ \<Rightarrow> None) tr"

subsection \<open>An example machine\<close>

text \<open>
  A machine on which the theorems below are tried: Python 3.11, the working
  directory \<^verbatim>\<open>/home/user\<close>, no symbolic links, one audio file \<^verbatim>\<open>/data/talk.wav\<close>, no
  \<^verbatim>\<open>ffmpeg\<close> on the search path, and a speech library that knows the model
  \<^verbatim>\<open>small\<close> and hears \<^verbatim>\<open>hello world\<close>, with blanks around it, in every file.
\<close>

definition example_world :: world where
  "example_world =
     \<lparr>version_info = (3, 11),
      isdecimal = (\<lambda>c. 0x30 \<le> c \<and> c \<le> 0x39),
      sys_argv = [ascii ''transcribe.py'', ascii ''/data/talk.wav''],
      os_expanduser = (\<lambda>s. if s = ascii ''~'' then ascii ''/home/user'' else s),
      os_realpath = (\<lambda>s. Inr (if take 1 s = [slash] then s
                             else if s = [dot] then ascii ''/home/user''
                             else ascii ''/home/user/'' @ s)),
      files = [ascii ''/data/talk.wav'' \<mapsto> [0x52, 0x49, 0x46, 0x46]],
      os_stat = (\<lambda>s. if s = ascii ''/'' \<or> s = ascii ''/data'' \<or> s = ascii ''/home/user''
                       then Stat_ok else Stat_OSError ENOENT),
      os_open_w = (\<lambda>s. None),
      which = (\<lambda>s. None),
      load_model = (\<lambda>n. if n = ascii ''small'' then Inr 1 else Inl (LibraryError 0)),
      transcribe = (\<lambda>m content p task language fp16.
                      case content of
                        None \<Rightarrow> Inl (LibraryError 1)
                      | Some _ \<Rightarrow> Inr (ascii '' hello world ''))\<rparr>"


section \<open>Properties\<close>

subsection \<open>Evaluating literals\<close>

lemma ascii_simps: "ascii [] = []" "ascii (c # cs) = of_char c # ascii cs"
  by (simp_all add: ascii_def)

lemmas path_defs = Path_def parse_parts_def splitroot_def components_def str_path_def
  format_parsed_parts_def name_def stem_def with_name_def parent_def

lemmas parser_defs = parse_args_def steps_taken_def parse_args_taking_def parse_known_args_def
  parse_optional_def option_string_actions_def actions_def help_action_def input_action_def
  model_action_def output_action_def language_action_def task_action_def task_choices_def
  get_option_tuples_def partition_eq_def negative_number_def negative_number_exact_def digits_def
  chomp_def final_positionals_def setattr_def default_namespace_def is_option_def item_string_def
  following_arg_def startswith_def action_name_def dest_name_def

lemmas prog_defs = bind_def emit_def ok_def raise_def lift_def get_world_def parser_exit_def
  write_text_def

subsection \<open>Paths\<close>

lemma split_sep_no_sep: "sep \<notin> set s \<Longrightarrow> split_sep sep s = [s]"
  by (induction s) auto

lemma split_sep_free: "x \<in> set (split_sep sep s) \<Longrightarrow> sep \<notin> set x"
  by (induction s arbitrary: x) (auto split: if_splits list.splits)

lemma parse_parts_single:
  assumes "nm \<noteq> []" and "slash \<notin> set nm" and "nm \<noteq> [dot]"
  shows "parse_parts [nm] = \<lparr>p_drv = [], p_root = [], p_parts = [nm]\<rparr>"
proof -
  from assms have "hd nm \<noteq> slash" by (cases nm) auto
  then have "splitroot nm = ([], nm)" by (simp add: splitroot_def)
  moreover from assms have "components nm = [nm]"
    by (simp add: components_def split_sep_no_sep)
  ultimately show ?thesis using assms by (simp add: parse_parts_def)
qed

lemma with_name_ok:
  assumes "name p \<noteq> []" and "nm \<noteq> []" and "slash \<notin> set nm" and "nm \<noteq> [dot]"
  shows "with_name p nm =
           Inr \<lparr>p_drv = p_drv p, p_root = p_root p, p_parts = butlast (p_parts p) @ [nm]\<rparr>"
proof -
  from assms have "last nm \<noteq> slash" by (metis last_in_set)
  then show ?thesis using assms by (simp add: with_name_def parse_parts_single)
qed

lemma stem_subset: "set (stem p) \<subseteq> set (name p)"
  by (auto simp: stem_def split: option.splits dest: in_set_takeD)

lemma components_component: "list_all component (components rel)"
  by (auto simp: components_def component_def list_all_iff dest: split_sep_free)

lemma splitroot_root:
  "splitroot part = (root, rel) \<Longrightarrow> root = [] \<or> root = [slash] \<or> root = [slash, slash]"
  by (auto simp: splitroot_def Let_def split: if_splits)

lemma parse_rev_inv:
  "list_all component parsed \<Longrightarrow> parse_rev ps parsed = (root, out) \<Longrightarrow>
   list_all component out \<and> (root = [] \<or> root = [slash] \<or> root = [slash, slash])"
proof (induction ps arbitrary: parsed)
  case Nil
  then show ?case by simp
next
  case (Cons part it)
  show ?case
  proof (cases "part = []")
    case True
    with Cons show ?thesis by simp
  next
    case False
    obtain r rel where sr: "splitroot part = (r, rel)" by (cases "splitroot part")
    have comp: "list_all component (parsed @ rev (components rel))"
      using Cons.prems(1) components_component [of rel] by (auto simp: list_all_iff)
    show ?thesis
    proof (cases "r = []")
      case True
      with Cons.prems(2) False sr have "parse_rev it (parsed @ rev (components rel)) = (root, out)"
        by (simp add: Let_def)
      with Cons.IH comp show ?thesis by blast
    next
      case nonempty: False
      with Cons.prems(2) False sr have "root = r" and "out = parsed @ rev (components rel)"
        by (simp_all add: Let_def)
      with comp splitroot_root [OF sr] show ?thesis by simp
    qed
  qed
qed

text \<open>Every path the program builds from strings is valid.\<close>

lemma valid_parse_parts: "valid_path (parse_parts ps)"
proof -
  obtain root out where pr: "parse_rev (rev ps) [] = (root, out)"
    by (cases "parse_rev (rev ps) []")
  from parse_rev_inv [OF _ pr] have "list_all component out"
    and "root = [] \<or> root = [slash] \<or> root = [slash, slash]" by simp_all
  with pr show ?thesis
    by (auto simp: parse_parts_def valid_path_def list_all_iff)
qed

lemma valid_name:
  assumes "valid_path p" and "name p \<noteq> []"
  shows "p_parts p \<noteq> []" and "component (name p)"
    and "\<not> (length (p_parts p) = 1 \<and> (p_drv p \<noteq> [] \<or> p_root p \<noteq> []))"
    and "name p = last (p_parts p)"
proof -
  show ne: "p_parts p \<noteq> []" using assms by (auto simp: valid_path_def name_def)
  show n1: "\<not> (length (p_parts p) = 1 \<and> (p_drv p \<noteq> [] \<or> p_root p \<noteq> []))"
    using assms by (auto simp: name_def split: if_splits)
  show nl: "name p = last (p_parts p)" using assms by (auto simp: name_def split: if_splits)
  show "component (name p)"
  proof (cases "p_root p = []")
    case True
    with assms ne nl show ?thesis by (auto simp: valid_path_def list_all_iff)
  next
    case False
    with assms n1 ne have "tl (p_parts p) \<noteq> []" and "list_all component (tl (p_parts p))"
      by (auto simp: valid_path_def) (cases "p_parts p", auto)+
    moreover from this have "last (p_parts p) \<in> set (tl (p_parts p))"
      by (metis last_in_set last_tl)
    ultimately show ?thesis using nl by (auto simp: list_all_iff)
  qed
qed

lemma task_choices_plain: "task \<in> set task_choices \<Longrightarrow> slash \<notin> set task"
  by (auto simp: task_choices_def ascii_def)

subsection \<open>Runs\<close>

lemma run_success:
  assumes "succeeds w argv args input_path model result_text output_path bytes"
  shows "run w argv =
           (Inr (), w\<lparr>files := (files w)(str_path output_path \<mapsto> bytes)\<rparr>,
            success_trace argv args input_path model (strip result_text) output_path @
            (if which w (ascii ''ffmpeg'') = None then [Print_stderr ffmpeg_warning] else []))"
  using assms
  by (auto simp: succeeds_def run_def main_def prog_defs success_trace_def
      split: option.splits sum.splits)

lemma run_returns:
  assumes "result_of (run w argv) = Inr ()"
  shows "\<exists>args input_path model result_text output_path bytes.
           succeeds w argv args input_path model result_text output_path bytes"
  using assms
  by (auto simp: succeeds_def run_def result_of_def main_def prog_defs
      split: option.splits sum.splits if_splits parse_exit.splits)

subsection \<open>The example machine\<close>

lemma example_parse:
  "parse_args example_world None =
     Inr \<lparr>ns_input = Some (ascii ''/data/talk.wav''), ns_model = ascii ''small'',
          ns_output = None, ns_language = None, ns_task = ascii ''transcribe''\<rparr>"
  by (simp add: ascii_simps parser_defs example_world_def)

lemma example_input:
  "expanduser example_world (Path (ascii ''/data/talk.wav'')) = Inr (Path (ascii ''/data/talk.wav''))"
  "resolve example_world (Path (ascii ''/data/talk.wav'')) = Inr (Path (ascii ''/data/talk.wav''))"
  "path_exists example_world (Path (ascii ''/data/talk.wav'')) = Inr True"
  by (simp_all add: ascii_simps example_world_def expanduser_def resolve_def path_exists_def
      stat_def path_defs)

lemma example_strip: "strip (ascii '' hello world '') = ascii ''hello world''"
  by (simp add: ascii_simps strip_def lstrip_def rstrip_def isspace_def)

lemma example_utf8: "utf8_encode (ascii ''hello world'') = Some (ascii ''hello world'')"
  by (simp add: ascii_simps utf8_char_def)

lemma example_output:
  "resolve_output_path example_world (Path (ascii ''/data/talk.wav'')) None (ascii ''transcribe'') =
     Inr (Path (ascii ''/data/talk_transcribe.txt''))"
  by (simp add: ascii_simps resolve_output_path_def path_defs)

lemma example_str_path:
  "str_path (Path (ascii ''/data/talk.wav'')) = ascii ''/data/talk.wav''"
  "str_path (Path (ascii ''/data/talk_transcribe.txt'')) = ascii ''/data/talk_transcribe.txt''"
  by (simp_all add: ascii_simps path_defs)

lemma example_succeeds:
  "succeeds example_world None
     \<lparr>ns_input = Some (ascii ''/data/talk.wav''), ns_model = ascii ''small'',
      ns_output = None, ns_language = None, ns_task = ascii ''transcribe''\<rparr>
     (Path (ascii ''/data/talk.wav'')) 1 (ascii '' hello world '')
     (Path (ascii ''/data/talk_transcribe.txt'')) (ascii ''hello world'')"
  unfolding succeeds_def
  by (simp add: example_parse example_input example_output example_strip example_utf8
      example_str_path)
    (simp add: example_world_def version_ge_def ascii_simps)


subsection \<open>The order of the stages\<close>




subsection \<open>A missing input file\<close>




subsection \<open>The output path\<close>

text \<open>
  C2 (as amended). For every input path that has a final component (a name), and
  every valid task value, when no output path is provided, \<^verbatim>\<open>resolve_output_path\<close>
  returns a path in the same directory as the input path whose filename is the
  input's stem followed by an underscore, the task name, and the extension
  \<^verbatim>\<open>.txt\<close>. The input path is any path object \<^verbatim>\<open>pathlib\<close> can build (\<open>valid_path\<close>).
\<close>

theorem default_output_path:
  assumes "valid_path input_path" and "name input_path \<noteq> []" and "task \<in> set task_choices"
  shows "\<exists>out. resolve_output_path w input_path None task = Inr out \<and>
           parent out = parent input_path \<and>
           name out = stem input_path @ ascii ''_'' @ task @ ascii ''.txt'' \<and>
           valid_path out"
proof -
  let ?nm = "stem input_path @ ascii ''_'' @ task @ ascii ''.txt''"
  let ?out = "\<lparr>p_drv = p_drv input_path, p_root = p_root input_path,
               p_parts = butlast (p_parts input_path) @ [?nm]\<rparr>"
  note vn = valid_name [OF assms(1,2)]
  from vn(2) stem_subset [of input_path] have "slash \<notin> set (stem input_path)"
    by (auto simp: component_def)
  with task_choices_plain [OF assms(3)] have plain: "slash \<notin> set ?nm"
    by (auto simp: ascii_def)
  have ne: "?nm \<noteq> []" and nd: "?nm \<noteq> [dot]" by (auto simp: ascii_def)
  from with_name_ok [OF assms(2) ne plain nd]
  have res: "resolve_output_path w input_path None task = Inr ?out"
    by (simp add: resolve_output_path_def)
  have par: "parent ?out = parent input_path"
    using vn(1,3) by (auto simp: parent_def)
  have nam: "name ?out = ?nm"
    using vn(1,3) by (auto simp: name_def)
  have cn: "component ?nm" using ne nd plain by (simp add: component_def)
  have val: "valid_path ?out"
  proof (cases "p_root input_path = []")
    case True
    with assms(1) cn show ?thesis
      by (auto simp: valid_path_def list_all_iff dest: in_set_butlastD)
  next
    case False
    with vn(1,3) obtain a rest where parts: "p_parts input_path = a # rest" and "rest \<noteq> []"
      by (cases "p_parts input_path") auto
    with assms(1) False cn show ?thesis
      by (auto simp: valid_path_def list_all_iff dest: in_set_butlastD)
  qed
  from res par nam val show ?thesis by blast
qed

lemma example_names:
  "name (Path (ascii ''/data/talk.wav'')) = ascii ''talk.wav''"
  "stem (Path (ascii ''/data/talk.wav'')) = ascii ''talk''"
  "parent (Path (ascii ''/data/talk.wav'')) = Path (ascii ''/data'')"
  by (simp_all add: ascii_simps path_defs)

theorem default_output_path_witness:
  "\<exists>out. resolve_output_path example_world (Path (ascii ''/data/talk.wav'')) None
            (ascii ''translate'') = Inr out \<and>
         parent out = Path (ascii ''/data'') \<and> name out = ascii ''talk_translate.txt''"
proof -
  have "name (Path (ascii ''/data/talk.wav'')) \<noteq> []"
    by (simp add: example_names) (simp add: ascii_simps)
  moreover have "ascii ''translate'' \<in> set task_choices"
    by (simp add: task_choices_def)
  moreover have "valid_path (Path (ascii ''/data/talk.wav''))"
    by (simp add: Path_def valid_parse_parts)
  ultimately obtain out where
    "resolve_output_path example_world (Path (ascii ''/data/talk.wav'')) None
       (ascii ''translate'') = Inr out"
    "parent out = parent (Path (ascii ''/data/talk.wav''))"
    "name out = stem (Path (ascii ''/data/talk.wav'')) @ ascii ''_'' @ ascii ''translate'' @
       ascii ''.txt''"
    using default_output_path [of "Path (ascii ''/data/talk.wav'')" "ascii ''translate''" example_world]
    by blast
  then show ?thesis by (simp add: example_names) (simp add: ascii_simps)
qed

text \<open>
  C2 as stated, for every input path, fails on a path without a name: the root
  directory is a path \<^verbatim>\<open>pathlib\<close> builds, it can be the resolved input path of a run,
  and \<^verbatim>\<open>with_name\<close> raises \<^verbatim>\<open>ValueError\<close> on it.
\<close>

theorem default_output_path_counterexample:
  "valid_path (Path (ascii ''/'')) \<and> ascii ''transcribe'' \<in> set task_choices \<and>
   resolve_output_path example_world (Path (ascii ''/'')) None (ascii ''transcribe'') =
     Inl ValueError"
  by (simp add: Path_def valid_parse_parts task_choices_def)
    (simp add: ascii_simps resolve_output_path_def path_defs)

text \<open>
  C1 (as amended). For every input path and task, if a non-empty explicit output
  path is provided, \<^verbatim>\<open>resolve_output_path\<close> returns exactly that provided path
  expanded to absolute form, regardless of the input path and of the task value:
  the result is that of \<^verbatim>\<open>Path(provided).expanduser().resolve()\<close>, the exceptions of
  the expansion included, and when it is a path, that path is absolute, given that
  \<^verbatim>\<open>os.path.realpath\<close> returns strings that start with a slash.
\<close>

lemma absolute_parse_parts: "take 1 r = [slash] \<Longrightarrow> is_absolute (parse_parts [r])"
  by (cases r) (auto simp: is_absolute_def parse_parts_def splitroot_def Let_def split: prod.splits)

lemma resolve_absolute:
  assumes "realpath_absolute w" and "resolve w p = Inr out"
  shows "is_absolute out \<and> valid_path out"
proof -
  from assms(2) obtain r where r: "os_realpath w (str_path p) = Inr r" and out: "out = parse_parts [r]"
    by (auto simp: resolve_def Let_def split: sum.splits stat_result.splits if_splits)
  from assms(1) r have "take 1 r = [slash]" by (simp add: realpath_absolute_def)
  with out show ?thesis by (simp add: absolute_parse_parts valid_parse_parts)
qed

theorem explicit_output_path:
  assumes "provided \<noteq> []"
  shows "resolve_output_path w input_path (Some provided) task =
           (case expanduser w (Path provided) of Inl e \<Rightarrow> Inl e | Inr p \<Rightarrow> resolve w p) \<and>
         (realpath_absolute w \<longrightarrow>
            (\<forall>out. resolve_output_path w input_path (Some provided) task = Inr out \<longrightarrow>
                   is_absolute out \<and> valid_path out))"
  using assms
  by (auto simp: resolve_output_path_def split: sum.splits dest: resolve_absolute)

lemma example_realpath: "realpath_absolute example_world"
  by (auto simp: realpath_absolute_def example_world_def ascii_simps)

lemma example_home:
  "expanduser example_world (Path (ascii ''~/out.txt'')) = Inr (Path (ascii ''/home/user/out.txt''))"
  "resolve example_world (Path (ascii ''/home/user/out.txt'')) =
     Inr (Path (ascii ''/home/user/out.txt''))"
  by (simp_all add: ascii_simps example_world_def expanduser_def resolve_def stat_def path_defs)

theorem explicit_output_path_witness:
  "realpath_absolute example_world \<and> ascii ''~/out.txt'' \<noteq> [] \<and>
   resolve_output_path example_world (Path (ascii ''/data/talk.wav'')) (Some (ascii ''~/out.txt''))
     (ascii ''translate'') = Inr (Path (ascii ''/home/user/out.txt'')) \<and>
   is_absolute (Path (ascii ''/home/user/out.txt''))"
proof -
  have ne: "ascii ''~/out.txt'' \<noteq> []" by (simp add: ascii_simps)
  note th = explicit_output_path [OF ne, of example_world "Path (ascii ''/data/talk.wav'')"
      "ascii ''translate''"]
  from th have eq: "resolve_output_path example_world (Path (ascii ''/data/talk.wav''))
      (Some (ascii ''~/out.txt'')) (ascii ''translate'') = Inr (Path (ascii ''/home/user/out.txt''))"
    by (simp add: example_home)
  with th example_realpath have "is_absolute (Path (ascii ''/home/user/out.txt''))" by blast
  with eq example_realpath ne show ?thesis by simp
qed

text \<open>
  C1 as stated fails when the output path provided is the empty string: the
  expansion of the empty path is the working directory, and the source returns the
  default beside the input instead.
\<close>

lemma example_empty:
  "expanduser example_world (Path []) = Inr (Path [])"
  "resolve example_world (Path []) = Inr (Path (ascii ''/home/user''))"
  by (simp_all add: ascii_simps example_world_def expanduser_def resolve_def stat_def path_defs)

theorem explicit_output_path_counterexample:
  "resolve_output_path example_world (Path (ascii ''/data/talk.wav'')) (Some [])
     (ascii ''transcribe'') = Inr (Path (ascii ''/data/talk_transcribe.txt'')) \<and>
   (case expanduser example_world (Path []) of Inl e \<Rightarrow> Inl e | Inr p \<Rightarrow> resolve example_world p) =
     Inr (Path (ascii ''/home/user'')) \<and>
   Path (ascii ''/data/talk_transcribe.txt'') \<noteq> Path (ascii ''/home/user'')"
proof -
  have "resolve_output_path example_world (Path (ascii ''/data/talk.wav'')) (Some [])
     (ascii ''transcribe'') = Inr (Path (ascii ''/data/talk_transcribe.txt''))"
    using example_output by (simp add: resolve_output_path_def)
  moreover have "Path (ascii ''/data/talk_transcribe.txt'') \<noteq> Path (ascii ''/home/user'')"
    by (simp add: ascii_simps path_defs)
  ultimately show ?thesis by (simp add: example_empty)
qed

text \<open>
  What \<^verbatim>\<open>with_name\<close> gives for the default name, for a path that has a name and a
  task without a slash.
\<close>

lemma default_name:
  assumes "valid_path input_path" and "name input_path \<noteq> []" and "slash \<notin> set task"
  shows "\<exists>out. with_name input_path (stem input_path @ ascii ''_'' @ task @ ascii ''.txt'') = Inr out \<and>
           parent out = parent input_path \<and>
           name out = stem input_path @ ascii ''_'' @ task @ ascii ''.txt'' \<and>
           valid_path out"
proof -
  let ?nm = "stem input_path @ ascii ''_'' @ task @ ascii ''.txt''"
  let ?out = "\<lparr>p_drv = p_drv input_path, p_root = p_root input_path,
               p_parts = butlast (p_parts input_path) @ [?nm]\<rparr>"
  note vn = valid_name [OF assms(1,2)]
  from vn(2) stem_subset [of input_path] have "slash \<notin> set (stem input_path)"
    by (auto simp: component_def)
  with assms(3) have plain: "slash \<notin> set ?nm"
    by (auto simp: ascii_def)
  have ne: "?nm \<noteq> []" and nd: "?nm \<noteq> [dot]" by (auto simp: ascii_def)
  note res = with_name_ok [OF assms(2) ne plain nd]
  have par: "parent ?out = parent input_path"
    using vn(1,3) by (auto simp: parent_def)
  have nam: "name ?out = ?nm"
    using vn(1,3) by (auto simp: name_def)
  have cn: "component ?nm" using ne nd plain by (simp add: component_def)
  have val: "valid_path ?out"
  proof (cases "p_root input_path = []")
    case True
    with assms(1) cn show ?thesis
      by (auto simp: valid_path_def list_all_iff dest: in_set_butlastD)
  next
    case False
    with vn(1,3) obtain a rest where parts: "p_parts input_path = a # rest" and "rest \<noteq> []"
      by (cases "p_parts input_path") auto
    with assms(1) False cn show ?thesis
      by (auto simp: valid_path_def list_all_iff dest: in_set_butlastD)
  qed
  from res par nam val show ?thesis by blast
qed

text \<open>
  C10 (as amended). When the provided output argument is the empty string,
  \<^verbatim>\<open>resolve_output_path\<close> treats it as if no output path were provided: the two
  calls are equal on every input, and for every input path that has a final
  component (a name) and every valid task value the call returns the derived
  default sibling path, in the directory of the input and named
  \<^verbatim>\<open><stem>_<task>.txt\<close>, rather than a path built from the empty string.
\<close>

theorem empty_output_is_default:
  assumes "valid_path input_path" and "name input_path \<noteq> []" and "task \<in> set task_choices"
  shows "resolve_output_path w input_path (Some []) task =
           resolve_output_path w input_path None task \<and>
         (\<exists>out. resolve_output_path w input_path (Some []) task = Inr out \<and>
            parent out = parent input_path \<and>
            name out = stem input_path @ ascii ''_'' @ task @ ascii ''.txt'' \<and>
            valid_path out)"
  using default_name [OF assms(1,2) task_choices_plain [OF assms(3)]]
  by (simp add: resolve_output_path_def)

theorem empty_output_is_default_witness:
  "valid_path (Path (ascii ''/data/talk.wav'')) \<and> name (Path (ascii ''/data/talk.wav'')) \<noteq> [] \<and>
   ascii ''transcribe'' \<in> set task_choices \<and>
   (\<exists>out. resolve_output_path example_world (Path (ascii ''/data/talk.wav'')) (Some [])
             (ascii ''transcribe'') = Inr out \<and>
          parent out = Path (ascii ''/data'') \<and> name out = ascii ''talk_transcribe.txt'')"
proof -
  have n: "name (Path (ascii ''/data/talk.wav'')) \<noteq> []"
    by (simp add: example_names) (simp add: ascii_simps)
  have t: "ascii ''transcribe'' \<in> set task_choices"
    by (simp add: task_choices_def)
  have v: "valid_path (Path (ascii ''/data/talk.wav''))"
    by (simp add: Path_def valid_parse_parts)
  from empty_output_is_default [OF v n t, of example_world] obtain out where
    "resolve_output_path example_world (Path (ascii ''/data/talk.wav'')) (Some [])
       (ascii ''transcribe'') = Inr out"
    "parent out = parent (Path (ascii ''/data/talk.wav''))"
    "name out = stem (Path (ascii ''/data/talk.wav'')) @ ascii ''_'' @ ascii ''transcribe'' @
       ascii ''.txt''"
    by blast
  then have "\<exists>out. resolve_output_path example_world (Path (ascii ''/data/talk.wav'')) (Some [])
             (ascii ''transcribe'') = Inr out \<and>
          parent out = Path (ascii ''/data'') \<and> name out = ascii ''talk_transcribe.txt''"
    by (simp add: example_names) (simp add: ascii_simps)
  with v n t show ?thesis by blast
qed

text \<open>
  C10 as stated, for every input, fails where C2 does: on an input path without a
  name the call with the empty string raises \<^verbatim>\<open>ValueError\<close> and returns no path.
\<close>

theorem empty_output_counterexample:
  "valid_path (Path (ascii ''/'')) \<and> ascii ''transcribe'' \<in> set task_choices \<and>
   resolve_output_path example_world (Path (ascii ''/'')) (Some []) (ascii ''transcribe'') =
     Inl ValueError"
  by (simp add: Path_def valid_parse_parts task_choices_def)
    (simp add: ascii_simps resolve_output_path_def path_defs)

subsection \<open>What a run that returns has printed and written\<close>


lemma example_returns: "result_of (run example_world None) = Inr ()"
  by (simp add: run_success [OF example_succeeds] result_of_def)

text \<open>
  C6. For every transcription text, the preview is exactly the first 1000
  characters followed by a single truncation marker (the ellipsis \<^verbatim>\<open>U+2026\<close>) when
  the text's length exceeds 1000 characters, and exactly the full text with no
  marker when the length is at most 1000 characters. It is what is printed: in
  every run that returns, the lines on standard output are the two status lines,
  the line that names the output path, the heading of the preview and the preview
  of the trimmed text of the transcription.
\<close>

theorem preview_truncation:
  "preview text = (if 1000 < length text then take 1000 text @ [0x2026] else text) \<and>
   (result_of (run w argv) = Inr () \<longrightarrow>
      (\<exists>args input_path model result_text output_path bytes.
         succeeds w argv args input_path model result_text output_path bytes \<and>
         stdout_lines (trace_of (run w argv)) =
           [loading_message (ns_model args), transcribing_message, done_message output_path,
            preview_header, preview (strip result_text)]))"
proof -
  have "preview text = (if 1000 < length text then take 1000 text @ [0x2026] else text)"
    by (simp add: preview_def)
  moreover have "\<exists>args input_path model result_text output_path bytes.
         succeeds w argv args input_path model result_text output_path bytes \<and>
         stdout_lines (trace_of (run w argv)) =
           [loading_message (ns_model args), transcribing_message, done_message output_path,
            preview_header, preview (strip result_text)]"
    if "result_of (run w argv) = Inr ()"
  proof -
    from run_returns [OF that] obtain args input_path model result_text output_path bytes
      where s: "succeeds w argv args input_path model result_text output_path bytes" by blast
    have "stdout_lines (trace_of (run w argv)) =
           [loading_message (ns_model args), transcribing_message, done_message output_path,
            preview_header, preview (strip result_text)]"
      by (simp add: run_success [OF s] trace_of_def success_trace_def stdout_lines_def
          List.map_filter_simps)
    with s show ?thesis by blast
  qed
  ultimately show ?thesis by blast
qed

theorem preview_truncation_witness:
  "preview (replicate 1001 0x61) = replicate 1000 0x61 @ [0x2026] \<and>
   preview (replicate 1000 0x61) = replicate 1000 0x61 \<and>
   result_of (run example_world None) = Inr () \<and>
   (\<exists>args input_path model result_text output_path bytes.
      succeeds example_world None args input_path model result_text output_path bytes \<and>
      stdout_lines (trace_of (run example_world None)) =
        [loading_message (ns_model args), transcribing_message, done_message output_path,
         preview_header, preview (strip result_text)])"
proof -
  have "preview (replicate 1001 0x61) = replicate 1000 0x61 @ [0x2026]"
    using preview_truncation [of "replicate 1001 0x61" example_world None] by simp
  moreover have "preview (replicate 1000 0x61) = replicate 1000 0x61"
    using preview_truncation [of "replicate 1000 0x61" example_world None] by simp
  moreover note example_returns
  moreover have "\<exists>args input_path model result_text output_path bytes.
      succeeds example_world None args input_path model result_text output_path bytes \<and>
      stdout_lines (trace_of (run example_world None)) =
        [loading_message (ns_model args), transcribing_message, done_message output_path,
         preview_header, preview (strip result_text)]"
    using preview_truncation [of "[]" example_world None] example_returns by blast
  ultimately show ?thesis by blast
qed



subsection \<open>The \<^verbatim>\<open>ffmpeg\<close> check\<close>

















subsection \<open>Running the program again\<close>










end
